theory Spec2Isabelle
  imports Main "HOL-Library.Word"
begin

section \<open>Data model of go/api/options/stream\_options.go\<close>

text \<open>
  Go functions of this package return a pair \<open>([]string, error)\<close>. Both components are
  populated independently by the code, so the model keeps the pair: the token list and an
  optional error, \<open>None\<close> standing for Go's \<open>nil\<close> error.
\<close>

datatype error = Error string

type_synonym int64 = "64 word"

type_synonym args_result = "string list \<times> error option"

text \<open>The tri-state flag: \<open>iota\<close> enumerates the three constants in this order.\<close>

datatype triStateBool = triStateBoolUndefined | triStateBoolTrue | triStateBoolFalse

text \<open>The field \<open>method\<close> of the Go struct is called \<open>method_field\<close> here.\<close>

record XTrimOptions =
  exact :: triStateBool
  limit :: int64
  method_field :: string
  threshold :: string

text \<open>
  The field \<open>id\<close> of the Go struct is called \<open>id_field\<close> here; \<open>trimOptions\<close> is a
  pointer that may be nil.
\<close>

record XAddOptions =
  id_field :: string
  makeStream :: triStateBool
  trimOptions :: "XTrimOptions option"

record StreamClaimOptions =
  idleTime :: int64
  idleUnixTime :: int64
  retryCount :: int64
  isForce :: bool

section \<open>Decimal rendering of integers\<close>

definition digit_char :: "nat \<Rightarrow> char" where
  "digit_char d = ''0123456789'' ! d"

function nat_to_dec :: "nat \<Rightarrow> string" where
  "nat_to_dec n =
     (if n < 10 then [digit_char n] else nat_to_dec (n div 10) @ [digit_char (n mod 10)])"
  by pat_completeness auto
termination
  by (relation "measure (\<lambda>n. n)") auto

declare nat_to_dec.simps [simp del]

text \<open>
  Modelled from the spec: \<open>utils.IntToString\<close> is a function of the package \<open>utils\<close>,
  whose source is not part of this development. The spec writes its result as \<open>str(n)\<close>:
  the base-10 rendering of the signed 64-bit value, with a leading minus sign for negative
  numbers.
\<close>

definition IntToString :: "int64 \<Rightarrow> string" where
  "IntToString v =
     (if sint v < 0 then CHR ''-'' # nat_to_dec (nat (- sint v)) else nat_to_dec (nat (sint v)))"

section \<open>XTrimOptions\<close>

definition NewXTrimOptionsWithMinId :: "string \<Rightarrow> XTrimOptions" where
  "NewXTrimOptionsWithMinId th =
     \<lparr>exact = triStateBoolUndefined, limit = 0, method_field = ''MINID'', threshold = th\<rparr>"

definition NewXTrimOptionsWithMaxLen :: "int64 \<Rightarrow> XTrimOptions" where
  "NewXTrimOptionsWithMaxLen th =
     \<lparr>exact = triStateBoolUndefined, limit = 0, method_field = ''MAXLEN'',
      threshold = IntToString th\<rparr>"

definition SetExactTrimming :: "XTrimOptions \<Rightarrow> XTrimOptions" where
  "SetExactTrimming xto = xto\<lparr>exact := triStateBoolTrue\<rparr>"

definition SetNearlyExactTrimming :: "XTrimOptions \<Rightarrow> XTrimOptions" where
  "SetNearlyExactTrimming xto = xto\<lparr>exact := triStateBoolFalse\<rparr>"

definition SetNearlyExactTrimmingAndLimit :: "int64 \<Rightarrow> XTrimOptions \<Rightarrow> XTrimOptions" where
  "SetNearlyExactTrimmingAndLimit l xto = xto\<lparr>exact := triStateBoolFalse, limit := l\<rparr>"

definition XTrimOptions_ToArgs :: "XTrimOptions \<Rightarrow> args_result" where
  "XTrimOptions_ToArgs xto =
     (let args = [];
          args = args @ [method_field xto];
          args = (if exact xto = triStateBoolTrue then args @ [''='']
                  else if exact xto = triStateBoolFalse then args @ [''~'']
                  else args);
          args = args @ [threshold xto];
          args = (if 0 <s limit xto then args @ [''LIMIT'', IntToString (limit xto)]
                  else args)
      in (args, None))"

section \<open>XAddOptions\<close>

definition NewXAddOptions :: "XAddOptions" where
  "NewXAddOptions = \<lparr>id_field = [], makeStream = triStateBoolUndefined, trimOptions = None\<rparr>"

definition SetId :: "string \<Rightarrow> XAddOptions \<Rightarrow> XAddOptions" where
  "SetId i xao = xao\<lparr>id_field := i\<rparr>"

definition SetDontMakeNewStream :: "XAddOptions \<Rightarrow> XAddOptions" where
  "SetDontMakeNewStream xao = xao\<lparr>makeStream := triStateBoolFalse\<rparr>"

text \<open>
  The body of \<open>XAddOptions.ToArgs\<close>, with the encoder called on the attached trim options
  as an argument. The \<open>err\<close> assigned inside the \<open>if\<close> block is a new variable of that
  block; the \<open>err\<close> of the last \<open>return\<close> is the outer one, which is never assigned.
\<close>

definition XAddOptions_ToArgs_with ::
    "(XTrimOptions \<Rightarrow> args_result) \<Rightarrow> XAddOptions \<Rightarrow> args_result" where
  "XAddOptions_ToArgs_with trim_ToArgs xao =
     (let args = [];
          args = (if makeStream xao = triStateBoolFalse then args @ [''NOMKSTREAM''] else args);
          id_step = (\<lambda>args. if id_field xao \<noteq> [] then (args @ [id_field xao], None)
                             else (args @ [''*''], None))
      in case trimOptions xao of
           None \<Rightarrow> id_step args
         | Some t \<Rightarrow>
             (case trim_ToArgs t of
                (moreArgs, Some e) \<Rightarrow> (args, Some e)
              | (moreArgs, None) \<Rightarrow> id_step (args @ moreArgs)))"

definition XAddOptions_ToArgs :: "XAddOptions \<Rightarrow> args_result" where
  "XAddOptions_ToArgs = XAddOptions_ToArgs_with XTrimOptions_ToArgs"

section \<open>StreamClaimOptions\<close>

definition NewStreamClaimOptions :: "StreamClaimOptions" where
  "NewStreamClaimOptions = \<lparr>idleTime = 0, idleUnixTime = 0, retryCount = 0, isForce = False\<rparr>"

definition SetIdleTime :: "int64 \<Rightarrow> StreamClaimOptions \<Rightarrow> StreamClaimOptions" where
  "SetIdleTime t sco = sco\<lparr>idleTime := t\<rparr>"

definition SetIdleUnixTime :: "int64 \<Rightarrow> StreamClaimOptions \<Rightarrow> StreamClaimOptions" where
  "SetIdleUnixTime t sco = sco\<lparr>idleUnixTime := t\<rparr>"

definition SetRetryCount :: "int64 \<Rightarrow> StreamClaimOptions \<Rightarrow> StreamClaimOptions" where
  "SetRetryCount c sco = sco\<lparr>retryCount := c\<rparr>"

definition IDLE_VALKEY_API :: string where "IDLE_VALKEY_API = ''IDLE''"
definition TIME_VALKEY_API :: string where "TIME_VALKEY_API = ''TIME''"
definition RETRY_COUNT_VALKEY_API :: string where "RETRY_COUNT_VALKEY_API = ''RETRYCOUNT''"
definition FORCE_VALKEY_API :: string where "FORCE_VALKEY_API = ''FORCE''"
definition JUST_ID_VALKEY_API :: string where "JUST_ID_VALKEY_API = ''JUSTID''"

definition StreamClaimOptions_ToArgs :: "StreamClaimOptions \<Rightarrow> args_result" where
  "StreamClaimOptions_ToArgs sco =
     (let optionArgs = [];
          optionArgs = (if 0 <s idleTime sco
                        then optionArgs @ [IDLE_VALKEY_API, IntToString (idleTime sco)]
                        else optionArgs);
          optionArgs = (if 0 <s idleUnixTime sco
                        then optionArgs @ [TIME_VALKEY_API, IntToString (idleUnixTime sco)]
                        else optionArgs);
          optionArgs = (if 0 <s retryCount sco
                        then optionArgs @ [RETRY_COUNT_VALKEY_API, IntToString (retryCount sco)]
                        else optionArgs);
          optionArgs = (if isForce sco then optionArgs @ [FORCE_VALKEY_API] else optionArgs)
      in (optionArgs, None))"

section \<open>ZScanOptions\<close>








section \<open>Sequences of setter calls\<close>

datatype XTrim_setter =
  Call_SetExactTrimming
  | Call_SetNearlyExactTrimming
  | Call_SetNearlyExactTrimmingAndLimit int64

fun apply_XTrim_setter :: "XTrimOptions \<Rightarrow> XTrim_setter \<Rightarrow> XTrimOptions" where
  "apply_XTrim_setter xto Call_SetExactTrimming = SetExactTrimming xto"
| "apply_XTrim_setter xto Call_SetNearlyExactTrimming = SetNearlyExactTrimming xto"
| "apply_XTrim_setter xto (Call_SetNearlyExactTrimmingAndLimit l) =
     SetNearlyExactTrimmingAndLimit l xto"

definition apply_XTrim_setters :: "XTrim_setter list \<Rightarrow> XTrimOptions \<Rightarrow> XTrimOptions" where
  "apply_XTrim_setters calls xto = foldl apply_XTrim_setter xto calls"

datatype Claim_setter =
  Call_SetIdleTime int64
  | Call_SetIdleUnixTime int64
  | Call_SetRetryCount int64

fun apply_Claim_setter :: "StreamClaimOptions \<Rightarrow> Claim_setter \<Rightarrow> StreamClaimOptions" where
  "apply_Claim_setter sco (Call_SetIdleTime t) = SetIdleTime t sco"
| "apply_Claim_setter sco (Call_SetIdleUnixTime t) = SetIdleUnixTime t sco"
| "apply_Claim_setter sco (Call_SetRetryCount c) = SetRetryCount c sco"

definition apply_Claim_setters ::
    "Claim_setter list \<Rightarrow> StreamClaimOptions \<Rightarrow> StreamClaimOptions" where
  "apply_Claim_setters calls sco = foldl apply_Claim_setter sco calls"

section \<open>Auxiliary facts\<close>

lemma digit_char_in_digits: "d < 10 \<Longrightarrow> digit_char d \<in> set ''0123456789''"
  unfolding digit_char_def by (rule nth_mem) simp

lemma nat_to_dec_digits: "set (nat_to_dec n) \<subseteq> set ''0123456789''"
proof (induction n rule: nat_to_dec.induct)
  case (1 n)
  show ?case
  proof (cases "n < 10")
    case True
    then show ?thesis
      using digit_char_in_digits [of n] by (subst nat_to_dec.simps) simp
  next
    case False
    have "n mod 10 < 10" by simp
    then have "digit_char (n mod 10) \<in> set ''0123456789''"
      by (rule digit_char_in_digits)
    with False "1.IH" show ?thesis
      by (subst nat_to_dec.simps) simp
  qed
qed

lemma letter_F_not_digit: "CHR ''F'' \<notin> set ''0123456789''"
  by simp

lemma nat_to_dec_no_F: "CHR ''F'' \<notin> set (nat_to_dec n)"
  using nat_to_dec_digits [of n] letter_F_not_digit by blast

lemma IntToString_no_F: "CHR ''F'' \<notin> set (IntToString v)"
proof (cases "sint v < 0")
  case True
  then have "IntToString v = CHR ''-'' # nat_to_dec (nat (- sint v))"
    by (simp add: IntToString_def)
  then show ?thesis
    using nat_to_dec_no_F [of "nat (- sint v)"] by simp
next
  case False
  then have "IntToString v = nat_to_dec (nat (sint v))"
    by (simp add: IntToString_def)
  then show ?thesis
    using nat_to_dec_no_F [of "nat (sint v)"] by simp
qed

lemma IntToString_not_FORCE: "IntToString v \<noteq> ''FORCE''"
proof
  assume "IntToString v = ''FORCE''"
  then have "CHR ''F'' \<in> set (IntToString v)" by simp
  with IntToString_no_F [of v] show False by simp
qed

lemma sless_zero_not_positive: "x <s 0 \<Longrightarrow> \<not> 0 <s (x :: int64)"
  by (simp add: word_sless_alt)

lemma apply_XTrim_setter_method: "method_field (apply_XTrim_setter xto c) = method_field xto"
  by (cases c)
     (simp_all add: SetExactTrimming_def SetNearlyExactTrimming_def
        SetNearlyExactTrimmingAndLimit_def)

lemma apply_XTrim_setters_method: "method_field (apply_XTrim_setters calls xto) = method_field xto"
  unfolding apply_XTrim_setters_def
  by (induction calls arbitrary: xto) (simp_all add: apply_XTrim_setter_method)

lemma XTrimOptions_ToArgs_first:
  "\<exists>rest. fst (XTrimOptions_ToArgs xto) = method_field xto # rest"
  by (simp add: XTrimOptions_ToArgs_def Let_def)

lemma apply_Claim_setter_isForce: "isForce (apply_Claim_setter sco c) = isForce sco"
  by (cases c) (simp_all add: SetIdleTime_def SetIdleUnixTime_def SetRetryCount_def)

lemma apply_Claim_setters_isForce: "isForce (apply_Claim_setters calls sco) = isForce sco"
  unfolding apply_Claim_setters_def
  by (induction calls arbitrary: sco) (simp_all add: apply_Claim_setter_isForce)

lemma StreamClaimOptions_ToArgs_unfolded:
  "StreamClaimOptions_ToArgs sco =
     ((if 0 <s idleTime sco then [''IDLE'', IntToString (idleTime sco)] else [])
      @ (if 0 <s idleUnixTime sco then [''TIME'', IntToString (idleUnixTime sco)] else [])
      @ (if 0 <s retryCount sco then [''RETRYCOUNT'', IntToString (retryCount sco)] else [])
      @ (if isForce sco then [''FORCE''] else []), None)"
  by (simp add: StreamClaimOptions_ToArgs_def Let_def IDLE_VALKEY_API_def TIME_VALKEY_API_def
      RETRY_COUNT_VALKEY_API_def FORCE_VALKEY_API_def)

lemma XTrimOptions_ToArgs_unfolded:
  "XTrimOptions_ToArgs xto =
     ([method_field xto]
      @ (case exact xto of
           triStateBoolTrue \<Rightarrow> [''='']
         | triStateBoolFalse \<Rightarrow> [''~'']
         | triStateBoolUndefined \<Rightarrow> [])
      @ [threshold xto]
      @ (if 0 <s limit xto then [''LIMIT'', IntToString (limit xto)] else []), None)"
  by (simp add: XTrimOptions_ToArgs_def Let_def split: triStateBool.split)

section \<open>Token sequences of the encoders\<close>

text \<open>
  Claim C1. For every \<open>XAddOptions\<close> value, \<open>ToArgs\<close> returns the tokens
  \<open>NOMKSTREAM\<close> exactly when \<open>makeStream\<close> is the explicit-false tri-state, followed by
  the tokens of the attached \<open>XTrimOptions\<close> when one is attached, followed last by the
  id when it is not empty and by the sentinel \<open>*\<close> otherwise; the error is nil.
\<close>

theorem XAddOptions_ToArgs_tokens:
  "XAddOptions_ToArgs xao =
     ((if makeStream xao = triStateBoolFalse then [''NOMKSTREAM''] else [])
      @ (case trimOptions xao of None \<Rightarrow> [] | Some t \<Rightarrow> fst (XTrimOptions_ToArgs t))
      @ [if id_field xao = [] then ''*'' else id_field xao], None)"
  by (simp add: XAddOptions_ToArgs_def XAddOptions_ToArgs_with_def XTrimOptions_ToArgs_def Let_def
      split: option.split)

text \<open>
  Claim C2, as stated, says that with \<open>limit = 0\<close> the output never contains the token
  \<open>LIMIT\<close>. The threshold is passed through as it is, so trim options built by
  \<open>NewXTrimOptionsWithMinId\<close> from the string \<open>LIMIT\<close> have limit 0 and an output
  that contains that token.
\<close>

theorem XTrimOptions_LIMIT_token_without_limit:
  "limit (NewXTrimOptionsWithMinId ''LIMIT'') = 0
   \<and> XTrimOptions_ToArgs (NewXTrimOptionsWithMinId ''LIMIT'') = ([''MINID'', ''LIMIT''], None)
   \<and> ''LIMIT'' \<in> set (fst (XTrimOptions_ToArgs (NewXTrimOptionsWithMinId ''LIMIT'')))"
  by (simp add: XTrimOptions_ToArgs_def NewXTrimOptionsWithMinId_def Let_def)

text \<open>
  Claim C2, amended. For every \<open>XTrimOptions\<close> value, \<open>ToArgs\<close> returns exactly the
  method, then \<open>=\<close> for the explicit-true tri-state, \<open>~\<close> for the explicit-false one and
  no marker when unset, then the threshold, then \<open>LIMIT\<close> and the decimal limit exactly
  when the limit is positive. With limit 0 the token \<open>LIMIT\<close> occurs in the output only
  when the method or the threshold is itself that string; with a positive limit the output
  ends with \<open>LIMIT\<close> and the decimal limit.
\<close>

theorem XTrimOptions_ToArgs_tokens:
  "XTrimOptions_ToArgs xto =
     ([method_field xto]
      @ (case exact xto of
           triStateBoolTrue \<Rightarrow> [''='']
         | triStateBoolFalse \<Rightarrow> [''~'']
         | triStateBoolUndefined \<Rightarrow> [])
      @ [threshold xto]
      @ (if 0 <s limit xto then [''LIMIT'', IntToString (limit xto)] else []), None)
   \<and> (limit xto = 0 \<longrightarrow>
        (''LIMIT'' \<in> set (fst (XTrimOptions_ToArgs xto))
         \<longleftrightarrow> method_field xto = ''LIMIT'' \<or> threshold xto = ''LIMIT''))
   \<and> (0 <s limit xto \<longrightarrow>
        (\<exists>front. fst (XTrimOptions_ToArgs xto) = front @ [''LIMIT'', IntToString (limit xto)]))"
proof (intro conjI impI)
  show "XTrimOptions_ToArgs xto =
     ([method_field xto]
      @ (case exact xto of
           triStateBoolTrue \<Rightarrow> [''='']
         | triStateBoolFalse \<Rightarrow> [''~'']
         | triStateBoolUndefined \<Rightarrow> [])
      @ [threshold xto]
      @ (if 0 <s limit xto then [''LIMIT'', IntToString (limit xto)] else []), None)"
    by (rule XTrimOptions_ToArgs_unfolded)
next
  assume "limit xto = 0"
  then show "''LIMIT'' \<in> set (fst (XTrimOptions_ToArgs xto))
             \<longleftrightarrow> method_field xto = ''LIMIT'' \<or> threshold xto = ''LIMIT''"
    by (cases "exact xto") (auto simp: XTrimOptions_ToArgs_unfolded)
next
  assume pos: "0 <s limit xto"
  have "fst (XTrimOptions_ToArgs xto) =
     ([method_field xto]
      @ (case exact xto of
           triStateBoolTrue \<Rightarrow> [''='']
         | triStateBoolFalse \<Rightarrow> [''~'']
         | triStateBoolUndefined \<Rightarrow> [])
      @ [threshold xto]) @ [''LIMIT'', IntToString (limit xto)]"
    by (simp only: XTrimOptions_ToArgs_unfolded fst_conv if_P [OF pos] append_assoc)
  then show "\<exists>front. fst (XTrimOptions_ToArgs xto) = front @ [''LIMIT'', IntToString (limit xto)]"
    by blast
qed

text \<open>
  The amended claim C2 at two inputs: max-length 1000 with no limit, and the same with
  nearly exact trimming and limit 7.
\<close>

theorem XTrimOptions_ToArgs_tokens_witness:
  "limit (NewXTrimOptionsWithMaxLen 1000) = 0
   \<and> method_field (NewXTrimOptionsWithMaxLen 1000) \<noteq> ''LIMIT''
   \<and> threshold (NewXTrimOptionsWithMaxLen 1000) \<noteq> ''LIMIT''
   \<and> ''LIMIT'' \<notin> set (fst (XTrimOptions_ToArgs (NewXTrimOptionsWithMaxLen 1000)))
   \<and> 0 <s limit (SetNearlyExactTrimmingAndLimit 7 (NewXTrimOptionsWithMaxLen 1000))
   \<and> XTrimOptions_ToArgs (SetNearlyExactTrimmingAndLimit 7 (NewXTrimOptionsWithMaxLen 1000))
       = ([''MAXLEN'', ''~'', ''1000'', ''LIMIT'', ''7''], None)"
  using XTrimOptions_ToArgs_tokens [of "NewXTrimOptionsWithMaxLen 1000"]
    XTrimOptions_ToArgs_tokens [of "SetNearlyExactTrimmingAndLimit 7 (NewXTrimOptionsWithMaxLen 1000)"]
  by (simp add: NewXTrimOptionsWithMaxLen_def SetNearlyExactTrimmingAndLimit_def
      IntToString_def nat_to_dec.simps digit_char_def word_sless_alt)

text \<open>
  Claim C3. For every \<open>StreamClaimOptions\<close> value, \<open>ToArgs\<close> returns, in this order,
  \<open>IDLE\<close> and the idle time only when it is strictly positive, \<open>TIME\<close> and the unix idle
  time only when it is strictly positive, \<open>RETRYCOUNT\<close> and the retry count only when it
  is strictly positive, and the bare keyword \<open>FORCE\<close> only when the force flag is set;
  freshly created options yield the empty token list.
\<close>

theorem StreamClaimOptions_ToArgs_tokens:
  "StreamClaimOptions_ToArgs sco =
     ((if 0 <s idleTime sco then [''IDLE'', IntToString (idleTime sco)] else [])
      @ (if 0 <s idleUnixTime sco then [''TIME'', IntToString (idleUnixTime sco)] else [])
      @ (if 0 <s retryCount sco then [''RETRYCOUNT'', IntToString (retryCount sco)] else [])
      @ (if isForce sco then [''FORCE''] else []), None)
   \<and> StreamClaimOptions_ToArgs NewStreamClaimOptions = ([], None)"
  by (simp add: StreamClaimOptions_ToArgs_unfolded) (simp add: NewStreamClaimOptions_def)

text \<open>
  Claim C7. \<open>ToArgs\<close> of every \<open>XTrimOptions\<close>, every \<open>StreamClaimOptions\<close> and every
  \<open>XAddOptions\<close>, with or without attached trim options, returns a nil error: the
  early return of \<open>XAddOptions.ToArgs\<close> is never taken, since the nested
  \<open>XTrimOptions.ToArgs\<close> never returns an error.
\<close>

theorem ToArgs_error_nil:
  "snd (XTrimOptions_ToArgs xto) = None
   \<and> snd (StreamClaimOptions_ToArgs sco) = None
   \<and> snd (XAddOptions_ToArgs xao) = None"
proof (intro conjI)
  show trim: "snd (XTrimOptions_ToArgs xto) = None" for xto
    by (simp add: XTrimOptions_ToArgs_def Let_def)
  show "snd (StreamClaimOptions_ToArgs sco) = None"
    by (simp add: StreamClaimOptions_ToArgs_def Let_def)
  show "snd (XAddOptions_ToArgs xao) = None"
  proof (cases "trimOptions xao")
    case None
    then show ?thesis
      by (simp add: XAddOptions_ToArgs_def XAddOptions_ToArgs_with_def Let_def)
  next
    case (Some t)
    obtain moreArgs where "XTrimOptions_ToArgs t = (moreArgs, None)"
      using trim [of t] by (cases "XTrimOptions_ToArgs t") simp
    with Some show ?thesis
      by (simp add: XAddOptions_ToArgs_def XAddOptions_ToArgs_with_def Let_def)
  qed
qed

section \<open>An error of the base encoder\<close>



section \<open>Builders\<close>

text \<open>
  Claim C6. For trim options created by \<open>NewXTrimOptionsWithMaxLen\<close> and any sequence of
  calls of \<open>SetExactTrimming\<close>, \<open>SetNearlyExactTrimming\<close> and
  \<open>SetNearlyExactTrimmingAndLimit\<close>, the method is \<open>MAXLEN\<close> and the first token of
  \<open>ToArgs\<close> is \<open>MAXLEN\<close>; for \<open>NewXTrimOptionsWithMinId\<close> they are \<open>MINID\<close>.
\<close>

theorem XTrimOptions_method_fixed:
  "method_field (apply_XTrim_setters calls (NewXTrimOptionsWithMaxLen n)) = ''MAXLEN''
   \<and> (\<exists>rest. fst (XTrimOptions_ToArgs (apply_XTrim_setters calls (NewXTrimOptionsWithMaxLen n)))
         = ''MAXLEN'' # rest)
   \<and> method_field (apply_XTrim_setters calls (NewXTrimOptionsWithMinId th)) = ''MINID''
   \<and> (\<exists>rest. fst (XTrimOptions_ToArgs (apply_XTrim_setters calls (NewXTrimOptionsWithMinId th)))
         = ''MINID'' # rest)"
proof -
  have maxlen: "method_field (apply_XTrim_setters calls (NewXTrimOptionsWithMaxLen n)) = ''MAXLEN''"
    by (simp add: apply_XTrim_setters_method NewXTrimOptionsWithMaxLen_def)
  have minid: "method_field (apply_XTrim_setters calls (NewXTrimOptionsWithMinId th)) = ''MINID''"
    by (simp add: apply_XTrim_setters_method NewXTrimOptionsWithMinId_def)
  from maxlen minid
    XTrimOptions_ToArgs_first [of "apply_XTrim_setters calls (NewXTrimOptionsWithMaxLen n)"]
    XTrimOptions_ToArgs_first [of "apply_XTrim_setters calls (NewXTrimOptionsWithMinId th)"]
  show ?thesis by (simp only: simp_thms)
qed

text \<open>
  Claim C8. For every \<open>StreamClaimOptions\<close>, after \<open>SetIdleTime(0)\<close> the output of
  \<open>ToArgs\<close> is that of the same options with the idle time as \<open>NewStreamClaimOptions\<close>
  leaves it; likewise for \<open>SetIdleUnixTime(0)\<close> and \<open>SetRetryCount(0)\<close>.
\<close>

theorem zero_same_as_unset:
  "StreamClaimOptions_ToArgs (SetIdleTime 0 sco)
     = StreamClaimOptions_ToArgs (sco\<lparr>idleTime := idleTime NewStreamClaimOptions\<rparr>)
   \<and> StreamClaimOptions_ToArgs (SetIdleUnixTime 0 sco)
     = StreamClaimOptions_ToArgs (sco\<lparr>idleUnixTime := idleUnixTime NewStreamClaimOptions\<rparr>)
   \<and> StreamClaimOptions_ToArgs (SetRetryCount 0 sco)
     = StreamClaimOptions_ToArgs (sco\<lparr>retryCount := retryCount NewStreamClaimOptions\<rparr>)"
  by (simp add: SetIdleTime_def SetIdleUnixTime_def SetRetryCount_def NewStreamClaimOptions_def)

lemma not_forced_no_FORCE_token:
  "\<not> isForce sco \<Longrightarrow> ''FORCE'' \<notin> set (fst (StreamClaimOptions_ToArgs sco))"
  using IntToString_not_FORCE [of "idleTime sco", symmetric]
    IntToString_not_FORCE [of "idleUnixTime sco", symmetric]
    IntToString_not_FORCE [of "retryCount sco", symmetric]
  by (simp add: StreamClaimOptions_ToArgs_unfolded)

text \<open>
  Claim C9. Every \<open>StreamClaimOptions\<close> value obtained from \<open>NewStreamClaimOptions\<close> by a
  sequence of calls of \<open>SetIdleTime\<close>, \<open>SetIdleUnixTime\<close> and \<open>SetRetryCount\<close> has the
  force flag unset, and the output of its \<open>ToArgs\<close> does not contain the token
  \<open>FORCE\<close>.
\<close>

theorem force_never_set:
  "\<not> isForce (apply_Claim_setters calls NewStreamClaimOptions)
   \<and> ''FORCE'' \<notin> set (fst (StreamClaimOptions_ToArgs
                               (apply_Claim_setters calls NewStreamClaimOptions)))"
proof -
  have "\<not> isForce (apply_Claim_setters calls NewStreamClaimOptions)"
    by (simp add: apply_Claim_setters_isForce NewStreamClaimOptions_def)
  then show ?thesis
    using not_forced_no_FORCE_token by blast
qed

text \<open>
  Claim C10. Strictly negative values are encoded like unset ones. Trim options with a
  negative limit encode like the same options with limit 0, with no \<open>LIMIT\<close> pair: the
  output is the method, the marker and the threshold. Claim options with a negative idle
  time encode like the same options with the idle time as \<open>NewStreamClaimOptions\<close> leaves
  it, with no \<open>IDLE\<close> pair: the output is what the other three fields contribute.
  Likewise a negative unix idle time gives no \<open>TIME\<close> pair and a negative retry count
  no \<open>RETRYCOUNT\<close> pair.
\<close>

theorem negative_same_as_unset:
  "(limit xto <s 0 \<longrightarrow>
      XTrimOptions_ToArgs xto = XTrimOptions_ToArgs (xto\<lparr>limit := 0\<rparr>)
      \<and> XTrimOptions_ToArgs xto =
          ([method_field xto]
           @ (case exact xto of
                triStateBoolTrue \<Rightarrow> [''='']
              | triStateBoolFalse \<Rightarrow> [''~'']
              | triStateBoolUndefined \<Rightarrow> [])
           @ [threshold xto], None))
   \<and> (idleTime sco <s 0 \<longrightarrow>
      StreamClaimOptions_ToArgs sco
        = StreamClaimOptions_ToArgs (sco\<lparr>idleTime := idleTime NewStreamClaimOptions\<rparr>)
      \<and> StreamClaimOptions_ToArgs sco =
          ((if 0 <s idleUnixTime sco then [''TIME'', IntToString (idleUnixTime sco)] else [])
           @ (if 0 <s retryCount sco then [''RETRYCOUNT'', IntToString (retryCount sco)] else [])
           @ (if isForce sco then [''FORCE''] else []), None))
   \<and> (idleUnixTime sco <s 0 \<longrightarrow>
      StreamClaimOptions_ToArgs sco
        = StreamClaimOptions_ToArgs (sco\<lparr>idleUnixTime := idleUnixTime NewStreamClaimOptions\<rparr>)
      \<and> StreamClaimOptions_ToArgs sco =
          ((if 0 <s idleTime sco then [''IDLE'', IntToString (idleTime sco)] else [])
           @ (if 0 <s retryCount sco then [''RETRYCOUNT'', IntToString (retryCount sco)] else [])
           @ (if isForce sco then [''FORCE''] else []), None))
   \<and> (retryCount sco <s 0 \<longrightarrow>
      StreamClaimOptions_ToArgs sco
        = StreamClaimOptions_ToArgs (sco\<lparr>retryCount := retryCount NewStreamClaimOptions\<rparr>)
      \<and> StreamClaimOptions_ToArgs sco =
          ((if 0 <s idleTime sco then [''IDLE'', IntToString (idleTime sco)] else [])
           @ (if 0 <s idleUnixTime sco then [''TIME'', IntToString (idleUnixTime sco)] else [])
           @ (if isForce sco then [''FORCE''] else []), None))"
proof (intro conjI impI)
  assume "limit xto <s 0"
  then have neg: "\<not> 0 <s limit xto" by (rule sless_zero_not_positive)
  from neg show "XTrimOptions_ToArgs xto = XTrimOptions_ToArgs (xto\<lparr>limit := 0\<rparr>)"
    by (simp add: XTrimOptions_ToArgs_unfolded)
  from neg show "XTrimOptions_ToArgs xto =
          ([method_field xto]
           @ (case exact xto of
                triStateBoolTrue \<Rightarrow> [''='']
              | triStateBoolFalse \<Rightarrow> [''~'']
              | triStateBoolUndefined \<Rightarrow> [])
           @ [threshold xto], None)"
    by (simp add: XTrimOptions_ToArgs_unfolded)
next
  assume "idleTime sco <s 0"
  then have neg: "\<not> 0 <s idleTime sco" by (rule sless_zero_not_positive)
  from neg show "StreamClaimOptions_ToArgs sco
      = StreamClaimOptions_ToArgs (sco\<lparr>idleTime := idleTime NewStreamClaimOptions\<rparr>)"
    by (simp add: StreamClaimOptions_ToArgs_unfolded NewStreamClaimOptions_def)
  from neg show "StreamClaimOptions_ToArgs sco =
          ((if 0 <s idleUnixTime sco then [''TIME'', IntToString (idleUnixTime sco)] else [])
           @ (if 0 <s retryCount sco then [''RETRYCOUNT'', IntToString (retryCount sco)] else [])
           @ (if isForce sco then [''FORCE''] else []), None)"
    by (simp add: StreamClaimOptions_ToArgs_unfolded)
next
  assume "idleUnixTime sco <s 0"
  then have neg: "\<not> 0 <s idleUnixTime sco" by (rule sless_zero_not_positive)
  from neg show "StreamClaimOptions_ToArgs sco
      = StreamClaimOptions_ToArgs (sco\<lparr>idleUnixTime := idleUnixTime NewStreamClaimOptions\<rparr>)"
    by (simp add: StreamClaimOptions_ToArgs_unfolded NewStreamClaimOptions_def)
  from neg show "StreamClaimOptions_ToArgs sco =
          ((if 0 <s idleTime sco then [''IDLE'', IntToString (idleTime sco)] else [])
           @ (if 0 <s retryCount sco then [''RETRYCOUNT'', IntToString (retryCount sco)] else [])
           @ (if isForce sco then [''FORCE''] else []), None)"
    by (simp add: StreamClaimOptions_ToArgs_unfolded)
next
  assume "retryCount sco <s 0"
  then have neg: "\<not> 0 <s retryCount sco" by (rule sless_zero_not_positive)
  from neg show "StreamClaimOptions_ToArgs sco
      = StreamClaimOptions_ToArgs (sco\<lparr>retryCount := retryCount NewStreamClaimOptions\<rparr>)"
    by (simp add: StreamClaimOptions_ToArgs_unfolded NewStreamClaimOptions_def)
  from neg show "StreamClaimOptions_ToArgs sco =
          ((if 0 <s idleTime sco then [''IDLE'', IntToString (idleTime sco)] else [])
           @ (if 0 <s idleUnixTime sco then [''TIME'', IntToString (idleUnixTime sco)] else [])
           @ (if isForce sco then [''FORCE''] else []), None)"
    by (simp add: StreamClaimOptions_ToArgs_unfolded)
qed

text \<open>
  Claim C10 at trim options with limit -5, at claim options with the three numbers set to
  -1, -2 and -3, and at claim options with a negative idle time next to a positive retry
  count.
\<close>

theorem negative_same_as_unset_witness:
  "limit (SetNearlyExactTrimmingAndLimit (- 5) (NewXTrimOptionsWithMinId ''0-1'')) <s 0
   \<and> XTrimOptions_ToArgs (SetNearlyExactTrimmingAndLimit (- 5) (NewXTrimOptionsWithMinId ''0-1''))
       = ([''MINID'', ''~'', ''0-1''], None)
   \<and> idleTime (SetRetryCount (- 3) (SetIdleUnixTime (- 2) (SetIdleTime (- 1) NewStreamClaimOptions))) <s 0
   \<and> idleUnixTime (SetRetryCount (- 3) (SetIdleUnixTime (- 2) (SetIdleTime (- 1) NewStreamClaimOptions))) <s 0
   \<and> retryCount (SetRetryCount (- 3) (SetIdleUnixTime (- 2) (SetIdleTime (- 1) NewStreamClaimOptions))) <s 0
   \<and> StreamClaimOptions_ToArgs
        (SetRetryCount (- 3) (SetIdleUnixTime (- 2) (SetIdleTime (- 1) NewStreamClaimOptions)))
       = ([], None)
   \<and> idleTime (SetRetryCount 3 (SetIdleTime (- 1) NewStreamClaimOptions)) <s 0
   \<and> StreamClaimOptions_ToArgs (SetRetryCount 3 (SetIdleTime (- 1) NewStreamClaimOptions))
       = ([''RETRYCOUNT'', ''3''], None)"
  using negative_same_as_unset
    [of "SetNearlyExactTrimmingAndLimit (- 5) (NewXTrimOptionsWithMinId ''0-1'')"
        "SetRetryCount (- 3) (SetIdleUnixTime (- 2) (SetIdleTime (- 1) NewStreamClaimOptions))"]
    negative_same_as_unset
    [of "SetNearlyExactTrimmingAndLimit (- 5) (NewXTrimOptionsWithMinId ''0-1'')"
        "SetRetryCount 3 (SetIdleTime (- 1) NewStreamClaimOptions)"]
  by (simp add: SetNearlyExactTrimmingAndLimit_def NewXTrimOptionsWithMinId_def
      SetRetryCount_def SetIdleUnixTime_def SetIdleTime_def NewStreamClaimOptions_def
      XTrimOptions_ToArgs_def StreamClaimOptions_ToArgs_def word_sless_alt
      IntToString_def nat_to_dec.simps digit_char_def RETRY_COUNT_VALKEY_API_def)

end
